theory Spec2Isabelle
  imports Complex_Main "HOL-Library.Char_ord" "HOL-Library.List_Lexorder"
begin

section \<open>Data model\<close>

text \<open>
  The program (\<^verbatim>\<open>src/app.py\<close>) is a pandas pipeline. A float cell of a data frame is
  a \<open>rat option\<close>: \<open>None\<close> is NaN (a missing value), \<open>Some q\<close> a number, with the
  arithmetic of interpolation taken exactly. Country names are strings, ordered as
  Python orders them (by code point, which the byte order of \<open>string\<close> agrees with);
  years are integers. Exceptions of Python are values of \<open>py_error\<close>.
\<close>

type_synonym cell = "rat option"

datatype py_error = ValueError | IndexError | KeyError

text \<open>A row of the long-format CSV: (Entity, Year, Total number of international immigrants).\<close>

type_synonym raw_row = "string \<times> int \<times> cell"

text \<open>
  The wide frame \<^verbatim>\<open>df_wide\<close>: the year labels of its columns, and its rows in index
  order, each the index label (Entity) with one cell per column.
\<close>

record wide =
  columns :: "int list"
  index_rows :: "(string \<times> cell list) list"

text \<open>A row of \<^verbatim>\<open>merged\<close>: the columns of \<^verbatim>\<open>world\<close>, the year cells, the two centroid columns.\<close>

record 'g merged_row =
  Entity :: string
  geometry :: 'g
  vals :: "cell list"
  centroid_lon :: rat
  centroid_lat :: rat

record 'g merged_frame =
  year_columns :: "int list"
  mrows :: "'g merged_row list"


text \<open>What the Sankey tab hands to the figure.\<close>

record sankey_data =
  labels :: "string list"
  sankey_source :: "nat list"
  sankey_target :: "nat list"
  sankey_value :: "cell list"

section \<open>Library operations\<close>

text \<open>\<^verbatim>\<open>Series.unique()\<close>: the distinct values in order of first appearance.\<close>

definition unique :: "'a list \<Rightarrow> 'a list" where
  "unique xs = rev (remdups (rev xs))"

text \<open>\<^verbatim>\<open>list.index(x)\<close>: the position of the first occurrence; absent raises.\<close>

fun index_of :: "'a list \<Rightarrow> 'a \<Rightarrow> nat option" where
  "index_of [] x = None"
| "index_of (y # ys) x = (if y = x then Some 0 else map_option Suc (index_of ys x))"

text \<open>
  \<^verbatim>\<open>DataFrame.pivot(index, columns, values)\<close>: a duplicate (index, column) pair raises
  ValueError; otherwise the index is the sorted distinct entities, the columns the sorted
  distinct years, and a cell with no source row is NaN.
\<close>

definition row_keys :: "raw_row list \<Rightarrow> (string \<times> int) list" where
  "row_keys df = map (\<lambda>(e, y, v). (e, y)) df"

definition cell_of :: "raw_row list \<Rightarrow> string \<Rightarrow> int \<Rightarrow> cell" where
  "cell_of df e y =
     (case find (\<lambda>(e', y', v). e' = e \<and> y' = y) df of
        None \<Rightarrow> None
      | Some (e', y', v) \<Rightarrow> v)"

definition pivot :: "raw_row list \<Rightarrow> py_error + wide" where
  "pivot df =
     (if \<not> distinct (row_keys df) then Inl ValueError
      else let ys = sort (unique (map (\<lambda>(e, y, v). y) df));
               es = sort (unique (map fst df))
           in Inr \<lparr>columns = ys, index_rows = map (\<lambda>e. (e, map (cell_of df e) ys)) es\<rparr>)"

text \<open>\<^verbatim>\<open>dropna(thresh=n)\<close>: keep the rows with at least \<open>n\<close> non-missing cells.\<close>

definition count_valid :: "cell list \<Rightarrow> nat" where
  "count_valid r = length (filter (\<lambda>c. c \<noteq> None) r)"

definition dropna :: "nat \<Rightarrow> wide \<Rightarrow> wide" where
  "dropna thresh w =
     w\<lparr>index_rows := filter (\<lambda>(e, r). thresh \<le> count_valid r) (index_rows w)\<rparr>"

text \<open>
  The first non-missing cell of a list: how far it is from the head, and its value.
\<close>

fun first_valid :: "cell list \<Rightarrow> (nat \<times> rat) option" where
  "first_valid [] = None"
| "first_valid (Some v # xs) = Some (0, v)"
| "first_valid (None # xs) = map_option (\<lambda>(i, v). (Suc i, v)) (first_valid xs)"

text \<open>
  \<^verbatim>\<open>interpolate(axis=1)\<close> with its defaults (method linear, direction forward), on one
  row. The cells count as equally spaced. A missing cell between two known cells takes
  the value on the line through the nearest known cell on each side; a missing cell
  after the last known cell takes that cell's value; a missing cell before the first
  known cell stays missing.
\<close>

definition interpolate_at :: "cell list \<Rightarrow> nat \<Rightarrow> cell" where
  "interpolate_at xs i =
     (case xs ! i of
        Some v \<Rightarrow> Some v
      | None \<Rightarrow>
          (case first_valid (rev (take i xs)) of
             None \<Rightarrow> None
           | Some (p, a) \<Rightarrow>
               (case first_valid (drop (Suc i) xs) of
                  None \<Rightarrow> Some a
                | Some (q, b) \<Rightarrow>
                    Some (a + (b - a) * of_nat (Suc p) / of_nat (Suc p + Suc q)))))"

definition interpolate :: "cell list \<Rightarrow> cell list" where
  "interpolate xs = map (interpolate_at xs) [0..<length xs]"

text \<open>\<^verbatim>\<open>bfill(axis=1)\<close> on one row: a missing cell takes the next known value, if any.\<close>

fun bfill :: "cell list \<Rightarrow> cell list" where
  "bfill [] = []"
| "bfill (Some v # xs) = Some v # bfill xs"
| "bfill (None # xs) = (case bfill xs of [] \<Rightarrow> [None] | c # cs \<Rightarrow> c # c # cs)"

text \<open>\<^verbatim>\<open>ffill(axis=1)\<close> on one row: a missing cell takes the last known value, if any.\<close>

fun ffill_from :: "cell \<Rightarrow> cell list \<Rightarrow> cell list" where
  "ffill_from prev [] = []"
| "ffill_from prev (Some v # xs) = Some v # ffill_from (Some v) xs"
| "ffill_from prev (None # xs) = prev # ffill_from prev xs"

definition ffill :: "cell list \<Rightarrow> cell list" where
  "ffill xs = ffill_from None xs"

text \<open>
  \<^verbatim>\<open>DataFrame.merge(right, on='Entity', how='inner')\<close>: one row per pair of a left and a
  right row with the same key, in the order of the left rows.
\<close>

definition merge_inner ::
  "(string \<times> 'g) list \<Rightarrow> (string \<times> cell list) list \<Rightarrow> (string \<times> 'g \<times> cell list) list" where
  "merge_inner left right =
     concat (map (\<lambda>(e, g). map (\<lambda>(e', r). (e, g, r)) (filter (\<lambda>(e', r). e' = e) right)) left)"

text \<open>
  \<^verbatim>\<open>DataFrame.nlargest(n, column)\<close>: the \<open>n\<close> rows with the largest values, largest
  first, equal values in their original order, rows with a missing value last.
\<close>

definition nlargest :: "nat \<Rightarrow> ('a \<Rightarrow> cell) \<Rightarrow> 'a list \<Rightarrow> 'a list" where
  "nlargest n key xs =
     take n (sort_key (\<lambda>x. - the (key x)) (filter (\<lambda>x. key x \<noteq> None) xs)
             @ filter (\<lambda>x. key x = None) xs)"

section \<open>The data loader\<close>

text \<open>
  \<^verbatim>\<open>load_migration_data\<close> (lines 10 to 35): pivot, \<^verbatim>\<open>dropna(thresh=5)\<close>, the three fills
  along each row, the filter on \<^verbatim>\<open>aggregates\<close>, the renaming by \<^verbatim>\<open>fix_names\<close>, in this
  order. The argument is the content of the CSV file.
\<close>

definition aggregates :: "string list" where
  "aggregates =
     [''Africa'', ''Americas'', ''Asia'', ''Europe'', ''European Union'', ''High income'',
      ''Low income'', ''Lower middle income'', ''Upper middle income'', ''Oceania'',
      ''World'', ''North America'', ''South America'', ''Sub-Saharan Africa'', ''Middle East'']"

definition fix_names :: "(string \<times> string) list" where
  "fix_names =
     [(''United States'', ''United States of America''),
      (''Czechia'', ''Czech Republic''),
      (''Democratic Republic of Congo'', ''Democratic Republic of the Congo''),
      (''Republic of Congo'', ''Republic of the Congo''),
      (''Eswatini'', ''Swaziland''),
      (''Timor'', ''Timor-Leste''),
      (''Myanmar'', ''Burma''),
      (''North Macedonia'', ''Macedonia''),
      (''South Sudan'', ''Sudan''),
      (''Laos'', ''Lao PDR'')]"

text \<open>\<^verbatim>\<open>rename(index=fix_names)\<close> on one label: a label that is no key stays as it is.\<close>

definition rename_label :: "string \<Rightarrow> string" where
  "rename_label s = (case map_of fix_names s of None \<Rightarrow> s | Some t \<Rightarrow> t)"

definition fill_row :: "cell list \<Rightarrow> cell list" where
  "fill_row r = ffill (bfill (interpolate r))"

definition load_migration_data :: "raw_row list \<Rightarrow> py_error + wide" where
  "load_migration_data df =
     (case pivot df of
        Inl err \<Rightarrow> Inl err
      | Inr df_wide1 \<Rightarrow>
          let df_wide2 = dropna 5 df_wide1;
              df_wide3 = df_wide2\<lparr>index_rows := map (\<lambda>(e, r). (e, fill_row r)) (index_rows df_wide2)\<rparr>;
              df_wide4 = df_wide3\<lparr>index_rows := filter (\<lambda>(e, r). e \<notin> set aggregates) (index_rows df_wide3)\<rparr>
          in Inr (df_wide4\<lparr>index_rows := map (\<lambda>(e, r). (rename_label e, r)) (index_rows df_wide4)\<rparr>))"

section \<open>Merge and selectors\<close>

text \<open>
  Lines 48 to 50 and 69 to 70. \<^verbatim>\<open>world\<close> is the geometry table, a list of
  (Entity, geometry); the centroid of a geometry is computed by the geometry library and
  is a parameter here.
\<close>

definition merged ::
  "('g \<Rightarrow> rat \<times> rat) \<Rightarrow> (string \<times> 'g) list \<Rightarrow> wide \<Rightarrow> 'g merged_frame" where
  "merged centroid world df_wide =
     \<lparr>year_columns = columns df_wide,
      mrows = map (\<lambda>(e, g, r). \<lparr>Entity = e, geometry = g, vals = r,
                                centroid_lon = fst (centroid g), centroid_lat = snd (centroid g)\<rparr>)
                  (merge_inner world (index_rows df_wide))\<rparr>"

definition country_options :: "'g merged_frame \<Rightarrow> string list" where
  "country_options m = sort (unique (map Entity (mrows m)))"

text \<open>\<^verbatim>\<open>st.selectbox(..., country_options, index=0)\<close> before the user changes it.\<close>

definition selected_dest :: "'g merged_frame \<Rightarrow> string option" where
  "selected_dest m = (case country_options m of [] \<Rightarrow> None | c # cs \<Rightarrow> Some c)"

text \<open>The cell of a row in the column labelled \<open>year\<close>.\<close>

definition row_cell :: "int list \<Rightarrow> 'g merged_row \<Rightarrow> int \<Rightarrow> cell" where
  "row_cell cols r year = (case map_of (zip cols (vals r)) year of None \<Rightarrow> None | Some c \<Rightarrow> c)"

section \<open>Globe flows\<close>




section \<open>Sankey diagram\<close>

text \<open>
  Lines 138 to 154, with \<open>N\<close> a parameter (10 in the source). Selecting the column
  \<^verbatim>\<open>[[year]]\<close> raises KeyError when the year is no column. \<^verbatim>\<open>target_index = N\<close> carries the
  comment that the destination is the last label; \<^verbatim>\<open>source_indices = list(range(N))\<close> is
  assigned and never read, the loop looks each source up with \<^verbatim>\<open>labels.index\<close>.
\<close>

fun sankey_loop ::
  "string list \<Rightarrow> nat \<Rightarrow> (cell \<times> string) list \<Rightarrow> py_error + (nat list \<times> nat list \<times> cell list)" where
  "sankey_loop labs target_index [] = Inr ([], [], [])"
| "sankey_loop labs target_index ((v, e) # rest) =
     (case index_of labs e of
        None \<Rightarrow> Inl ValueError
      | Some i \<Rightarrow>
          (case sankey_loop labs target_index rest of
             Inl err \<Rightarrow> Inl err
           | Inr (ss, ts, vs) \<Rightarrow> Inr (i # ss, target_index # ts, v # vs)))"

definition sources_df :: "'g merged_frame \<Rightarrow> string \<Rightarrow> int \<Rightarrow> (cell \<times> string) list" where
  "sources_df m dest year =
     map (\<lambda>r. (row_cell (year_columns m) r year, Entity r))
         (filter (\<lambda>r. Entity r \<noteq> dest) (mrows m))"

definition top_sources :: "nat \<Rightarrow> 'g merged_frame \<Rightarrow> string \<Rightarrow> int \<Rightarrow> (cell \<times> string) list" where
  "top_sources N m dest year = nlargest N fst (sources_df m dest year)"

definition sankey :: "nat \<Rightarrow> 'g merged_frame \<Rightarrow> string \<Rightarrow> int \<Rightarrow> py_error + sankey_data" where
  "sankey N m dest year =
     (if year \<notin> set (year_columns m) then Inl KeyError
      else let top = top_sources N m dest year;
               labs = map snd top @ [dest];
               target_index = N
           in (case sankey_loop labs target_index top of
                 Inl err \<Rightarrow> Inl err
               | Inr (ss, ts, vs) \<Rightarrow>
                   Inr \<lparr>labels = labs, sankey_source = ss, sankey_target = ts, sankey_value = vs\<rparr>))"

section \<open>Concrete tables\<close>

text \<open>
  A small long-format table over six years: Chad has four known values, Laos five
  (1990 is absent), and the aggregate World all six.
\<close>

definition ex_df :: "raw_row list" where
  "ex_df =
     [(''World'', 1990, Some 100), (''World'', 1995, Some 110), (''World'', 2000, Some 120),
      (''World'', 2005, Some 130), (''World'', 2010, Some 140), (''World'', 2015, Some 150),
      (''Laos'', 1995, Some 10), (''Laos'', 2000, Some 12), (''Laos'', 2005, Some 14),
      (''Laos'', 2010, Some 16), (''Laos'', 2015, Some 18),
      (''Chad'', 1990, Some 1), (''Chad'', 1995, Some 2), (''Chad'', 2000, Some 3),
      (''Chad'', 2005, Some 4)]"


definition ex_table :: wide where
  "ex_table =
     \<lparr>columns = [1990, 1995, 2000, 2005, 2010, 2015],
      index_rows = [(''Lao PDR'', [Some 10, Some 10, Some 12, Some 14, Some 16, Some 18])]\<rparr>"

text \<open>
  A long-format table with both Sudan and South Sudan, five years each, and the wide
  table the loader makes of it.
\<close>

definition sudan_df :: "raw_row list" where
  "sudan_df =
     [(''Sudan'', 1990, Some 1), (''Sudan'', 1995, Some 2), (''Sudan'', 2000, Some 3),
      (''Sudan'', 2005, Some 4), (''Sudan'', 2010, Some 5),
      (''South Sudan'', 1990, Some 6), (''South Sudan'', 1995, Some 7),
      (''South Sudan'', 2000, Some 8), (''South Sudan'', 2005, Some 9),
      (''South Sudan'', 2010, Some 10)]"

definition sudan_table :: wide where
  "sudan_table =
     \<lparr>columns = [1990, 1995, 2000, 2005, 2010],
      index_rows =
        [(''Sudan'', [Some 6, Some 7, Some 8, Some 9, Some 10]),
         (''Sudan'', [Some 1, Some 2, Some 3, Some 4, Some 5])]\<rparr>"

text \<open>
  A long-format table of four countries over six years: Chad (2000 absent), Laos (2015
  absent) and Sudan (2015 absent) have five known values each, South Sudan (1990 and
  2015 absent) has four. With it the pivoted table and the table the loader returns.
\<close>

definition names_df :: "raw_row list" where
  "names_df =
     [(''Sudan'', 1990, Some 1), (''Sudan'', 1995, Some 2), (''Sudan'', 2000, Some 3),
      (''Sudan'', 2005, Some 4), (''Sudan'', 2010, Some 5),
      (''South Sudan'', 1995, Some 6), (''South Sudan'', 2000, Some 7),
      (''South Sudan'', 2005, Some 8), (''South Sudan'', 2010, Some 9),
      (''Laos'', 1990, Some 10), (''Laos'', 1995, Some 12), (''Laos'', 2000, Some 14),
      (''Laos'', 2005, Some 16), (''Laos'', 2010, Some 18),
      (''Chad'', 1990, Some 20), (''Chad'', 1995, Some 21), (''Chad'', 2005, Some 23),
      (''Chad'', 2010, Some 24), (''Chad'', 2015, Some 25)]"

definition names_wide :: wide where
  "names_wide =
     \<lparr>columns = [1990, 1995, 2000, 2005, 2010, 2015],
      index_rows =
        [(''Chad'', [Some 20, Some 21, None, Some 23, Some 24, Some 25]),
         (''Laos'', [Some 10, Some 12, Some 14, Some 16, Some 18, None]),
         (''South Sudan'', [None, Some 6, Some 7, Some 8, Some 9, None]),
         (''Sudan'', [Some 1, Some 2, Some 3, Some 4, Some 5, None])]\<rparr>"

definition names_table :: wide where
  "names_table =
     \<lparr>columns = [1990, 1995, 2000, 2005, 2010, 2015],
      index_rows =
        [(''Chad'', [Some 20, Some 21, Some 22, Some 23, Some 24, Some 25]),
         (''Lao PDR'', [Some 10, Some 12, Some 14, Some 16, Some 18, Some 18]),
         (''Sudan'', [Some 1, Some 2, Some 3, Some 4, Some 5, Some 5])]\<rparr>"

text \<open>A merged frame of three countries and two year columns.\<close>

definition ex_merged :: "unit merged_frame" where
  "ex_merged =
     \<lparr>year_columns = [2015, 2020],
      mrows =
        [\<lparr>Entity = ''Chad'', geometry = (), vals = [Some 3, Some 4],
          centroid_lon = 19, centroid_lat = 15\<rparr>,
         \<lparr>Entity = ''Peru'', geometry = (), vals = [Some 7, Some 9],
          centroid_lon = -75, centroid_lat = -10\<rparr>,
         \<lparr>Entity = ''Fiji'', geometry = (), vals = [Some 1, Some 2],
          centroid_lon = 178, centroid_lat = -18\<rparr>]\<rparr>"

section \<open>Auxiliary lemmas\<close>

lemma set_unique [simp]: "set (unique xs) = set xs"
  by (simp add: unique_def)

lemma distinct_unique [simp]: "distinct (unique xs)"
  by (simp add: unique_def)

lemma fix_names_images: "map_of fix_names s = Some t \<Longrightarrow> t \<in> set (map snd fix_names)"
  by (metis map_of_SomeD image_eqI snd_conv set_map)

lemma image_not_key: "t \<in> set (map snd fix_names) \<Longrightarrow> map_of fix_names t = None"
  unfolding fix_names_def by (simp, elim disjE) simp_all

lemma image_not_aggregate: "t \<in> set (map snd fix_names) \<Longrightarrow> t \<notin> set aggregates"
  unfolding fix_names_def aggregates_def by (simp, elim disjE) simp_all

lemma rename_label_not_aggregate: "e \<notin> set aggregates \<Longrightarrow> rename_label e \<notin> set aggregates"
  by (cases "map_of fix_names e")
     (auto simp: rename_label_def dest!: fix_names_images image_not_aggregate)

lemma set_merge_inner:
  "set (merge_inner left right) = {(e, g, r). (e, g) \<in> set left \<and> (e, r) \<in> set right}"
  by (force simp: merge_inner_def image_iff)

lemma hd_sorted_Min:
  fixes xs :: "'a::linorder list"
  assumes "sorted xs" "xs \<noteq> []"
  shows "hd xs = Min (set xs)"
proof (cases xs)
  case Nil
  with assms show ?thesis by simp
next
  case (Cons x ys)
  with assms have "\<forall>y\<in>set xs. x \<le> y" by auto
  moreover have "x \<in> set xs" using Cons by simp
  ultimately have "Min (set xs) = x" by (intro Min_eqI) auto
  then show ?thesis using Cons by simp
qed

subsection \<open>The three fills\<close>

lemma length_interpolate [simp]: "length (interpolate xs) = length xs"
  by (simp add: interpolate_def)


lemma length_bfill [simp]: "length (bfill xs) = length xs"
  by (induction xs rule: bfill.induct) (auto split: list.splits)

lemma length_ffill_from [simp]: "length (ffill_from p xs) = length xs"
  by (induction p xs rule: ffill_from.induct) auto



lemma length_fill_row [simp]: "length (fill_row r) = length r"
  by (simp add: fill_row_def ffill_def)


subsection \<open>Pivot and the loader\<close>

lemma pivot_Inr:
  assumes "pivot df = Inr w"
  shows "distinct (row_keys df)"
    and "columns w = sort (unique (map (\<lambda>(e, y, v). y) df))"
    and "index_rows w = map (\<lambda>e. (e, map (cell_of df e) (columns w))) (sort (unique (map fst df)))"
  using assms by (auto simp: pivot_def Let_def split: if_splits)

lemma pivot_total: "distinct (row_keys df) \<Longrightarrow> \<exists>w. pivot df = Inr w"
  by (simp add: pivot_def Let_def)

lemma pivot_names:
  assumes "pivot df = Inr w"
  shows "map fst (index_rows w) = sort (unique (map fst df))"
  by (simp add: pivot_Inr(3)[OF assms] comp_def)

lemma pivot_distinct_names: "pivot df = Inr w \<Longrightarrow> distinct (map fst (index_rows w))"
  by (simp add: pivot_names)


lemma load_Inr:
  assumes "pivot df = Inr w"
  shows "load_migration_data df =
           Inr \<lparr>columns = columns w,
                index_rows = map (\<lambda>(e, r). (rename_label e, fill_row r))
                   (filter (\<lambda>(e, r). e \<notin> set aggregates \<and> 5 \<le> count_valid r) (index_rows w))\<rparr>"
  using assms
  by (simp add: load_migration_data_def Let_def dropna_def filter_map comp_def case_prod_unfold
        conj_commute)


lemma survivors_eq:
  "filter (\<lambda>(e, r). e \<notin> set aggregates) (index_rows (dropna 5 w))
   = filter (\<lambda>(e, r). e \<notin> set aggregates \<and> 5 \<le> count_valid r) (index_rows w)"
  by (simp add: dropna_def case_prod_unfold conj_commute)

subsection \<open>The flow loop\<close>



subsection \<open>The Sankey derivation\<close>

text \<open>
  What the derivation returns for any frame: the labels are the top sources and then the
  destination, every target index is \<open>N\<close>, and the destination is the label at position
  \<open>min N k\<close> for \<open>k\<close> eligible sources. With at least \<open>N\<close> eligible sources of distinct
  names the two agree and the source indices are \<open>0, ..., N - 1\<close>.
\<close>

lemma index_of_Some: "e \<in> set labs \<Longrightarrow> \<exists>i. index_of labs e = Some i"
  by (induction labs) auto

lemma sankey_loop_eq:
  "snd ` set tops \<subseteq> set labs \<Longrightarrow>
   sankey_loop labs t tops =
     Inr (map (\<lambda>p. the (index_of labs (snd p))) tops, replicate (length tops) t, map fst tops)"
proof (induction labs t tops rule: sankey_loop.induct)
  case (1 labs t)
  show ?case by simp
next
  case (2 labs t v e rest)
  from "2.prems" have e: "e \<in> set labs" and sub: "snd ` set rest \<subseteq> set labs"
    by simp_all
  from index_of_Some [OF e] obtain i where i: "index_of labs e = Some i" ..
  have ih: "sankey_loop labs t rest =
     Inr (map (\<lambda>p. the (index_of labs (snd p))) rest, replicate (length rest) t, map fst rest)"
    using "2.IH" i sub by simp
  show ?case
    by (simp add: i ih)
qed

lemma index_of_append_last: "e \<notin> set xs \<Longrightarrow> index_of (xs @ [e]) e = Some (length xs)"
  by (induction xs) auto

lemma index_of_distinct:
  "distinct xs \<Longrightarrow> i < length xs \<Longrightarrow> index_of (xs @ ys) (xs ! i) = Some i"
proof (induction xs arbitrary: i)
  case Nil
  then show ?case by simp
next
  case (Cons x xs)
  show ?case
  proof (cases i)
    case 0
    then show ?thesis by simp
  next
    case (Suc j)
    with Cons.prems have "xs ! j \<in> set xs" "x \<notin> set xs" by auto
    then have "x \<noteq> xs ! j" by auto
    with Suc Cons show ?thesis by simp
  qed
qed

lemma length_nlargest: "length (nlargest n key xs) = min n (length xs)"
proof -
  have "length (filter (\<lambda>x. key x \<noteq> None) xs) + length (filter (\<lambda>x. \<not> key x \<noteq> None) xs) = length xs"
    by (rule sum_length_filter_compl)
  then show ?thesis by (simp add: nlargest_def min.commute)
qed

lemma set_nlargest: "set (nlargest n key xs) \<subseteq> set xs"
proof -
  have "set (nlargest n key xs)
          \<subseteq> set (sort_key (\<lambda>x. - the (key x)) (filter (\<lambda>x. key x \<noteq> None) xs)
                   @ filter (\<lambda>x. key x = None) xs)"
    unfolding nlargest_def by (rule set_take_subset)
  also have "\<dots> \<subseteq> set xs" by auto
  finally show ?thesis .
qed

lemma top_sources_not_dest: "dest \<notin> snd ` set (top_sources N m dest year)"
proof
  assume "dest \<in> snd ` set (top_sources N m dest year)"
  then obtain p where p: "p \<in> set (top_sources N m dest year)" "snd p = dest" by auto
  have "set (top_sources N m dest year) \<subseteq> set (sources_df m dest year)"
    unfolding top_sources_def by (rule set_nlargest)
  with p(1) have "p \<in> set (sources_df m dest year)" by (rule rev_subsetD)
  then have "snd p \<noteq> dest" by (auto simp: sources_df_def)
  with p(2) show False by simp
qed

lemma length_top_sources:
  "length (top_sources N m dest year) = min N (length (filter (\<lambda>r. Entity r \<noteq> dest) (mrows m)))"
  by (simp add: top_sources_def length_nlargest sources_df_def)

lemma sankey_eq:
  assumes "year \<in> set (year_columns m)"
  shows "sankey N m dest year =
           Inr \<lparr>labels = map snd (top_sources N m dest year) @ [dest],
                sankey_source = map (\<lambda>p. the (index_of (map snd (top_sources N m dest year) @ [dest]) (snd p)))
                                    (top_sources N m dest year),
                sankey_target = replicate (length (top_sources N m dest year)) N,
                sankey_value = map fst (top_sources N m dest year)\<rparr>"
proof -
  let ?top = "top_sources N m dest year"
  have "snd ` set ?top \<subseteq> set (map snd ?top @ [dest])" by auto
  from sankey_loop_eq [OF this, of N] assms show ?thesis
    by (simp add: sankey_def Let_def)
qed

lemma sankey_dest_position:
  "index_of (map snd (top_sources N m dest year) @ [dest]) dest
     = Some (min N (length (filter (\<lambda>r. Entity r \<noteq> dest) (mrows m))))"
proof -
  have "dest \<notin> set (map snd (top_sources N m dest year))"
    using top_sources_not_dest [of dest N m year] by simp
  from index_of_append_last [OF this] show ?thesis
    by (simp add: length_top_sources)
qed

lemma sankey_sources_distinct:
  assumes "distinct (map snd (top_sources N m dest year))"
  shows "map (\<lambda>p. the (index_of (map snd (top_sources N m dest year) @ [dest]) (snd p)))
             (top_sources N m dest year)
         = [0..<length (top_sources N m dest year)]"
proof (rule nth_equalityI)
  show "length (map (\<lambda>p. the (index_of (map snd (top_sources N m dest year) @ [dest]) (snd p)))
             (top_sources N m dest year)) = length [0..<length (top_sources N m dest year)]"
    by simp
next
  fix i
  assume "i < length (map (\<lambda>p. the (index_of (map snd (top_sources N m dest year) @ [dest]) (snd p)))
             (top_sources N m dest year))"
  then have i: "i < length (top_sources N m dest year)" by simp
  then have "index_of (map snd (top_sources N m dest year) @ [dest])
               (map snd (top_sources N m dest year) ! i) = Some i"
    using index_of_distinct [OF assms, of i "[dest]"] by simp
  with i show "map (\<lambda>p. the (index_of (map snd (top_sources N m dest year) @ [dest]) (snd p)))
             (top_sources N m dest year) ! i = [0..<length (top_sources N m dest year)] ! i"
    by simp
qed

lemma sankey_when_enough_sources:
  assumes "year \<in> set (year_columns m)"
    and "N \<le> length (filter (\<lambda>r. Entity r \<noteq> dest) (mrows m))"
    and "distinct (map snd (top_sources N m dest year))"
  shows "sankey N m dest year =
           Inr \<lparr>labels = map snd (top_sources N m dest year) @ [dest],
                sankey_source = [0..<N],
                sankey_target = replicate N N,
                sankey_value = map fst (top_sources N m dest year)\<rparr>"
    and "index_of (map snd (top_sources N m dest year) @ [dest]) dest = Some N"
proof -
  from assms(2) have len: "length (top_sources N m dest year) = N"
    by (simp add: length_top_sources)
  show "sankey N m dest year =
           Inr \<lparr>labels = map snd (top_sources N m dest year) @ [dest],
                sankey_source = [0..<N],
                sankey_target = replicate N N,
                sankey_value = map fst (top_sources N m dest year)\<rparr>"
    unfolding sankey_eq [OF assms(1)] sankey_sources_distinct [OF assms(3)] len by simp
  from assms(2) show "index_of (map snd (top_sources N m dest year) @ [dest]) dest = Some N"
    unfolding sankey_dest_position by simp
qed

section \<open>Fill ordering\<close>

text \<open>
  Claim C2, as the code has it. On a row of five year cells
  [missing, 10, missing, 30, missing] the fills of the loader, interpolation then
  backward fill then forward fill, give exactly [10, 10, 20, 30, 30]. Interpolation
  sets the middle cell to 20 and the trailing cell to 30, the last known value, and
  leaves the leading cell missing; the backward fill sets the leading cell to 10; the
  forward fill, which comes last, finds no missing cell and changes nothing.
\<close>

theorem fill_ordering:
  "interpolate [None, Some 10, None, Some 30, None]
     = [None, Some 10, Some 20, Some 30, Some 30]
   \<and> bfill (interpolate [None, Some 10, None, Some 30, None])
       = [Some 10, Some 10, Some 20, Some 30, Some 30]
   \<and> ffill (bfill (interpolate [None, Some 10, None, Some 30, None]))
       = bfill (interpolate [None, Some 10, None, Some 30, None])
   \<and> fill_row [None, Some 10, None, Some 30, None]
       = [Some 10, Some 10, Some 20, Some 30, Some 30]"
  by code_simp

text \<open>
  The trailing cell is not filled by the forward fill: it is 30 as soon as the row is
  interpolated, it is not missing when the forward fill runs, and the forward fill leaves
  it as it finds it.
\<close>

theorem trailing_cell_counterexample:
  "interpolate [None, Some 10, None, Some 30, None] ! 4 = Some 30
   \<and> bfill (interpolate [None, Some 10, None, Some 30, None]) ! 4 \<noteq> None
   \<and> ffill (bfill (interpolate [None, Some 10, None, Some 30, None])) ! 4
       = bfill (interpolate [None, Some 10, None, Some 30, None]) ! 4"
  by code_simp

section \<open>Name normalization\<close>

text \<open>
  Claim C8. The normalization of a label is idempotent: renaming twice is renaming
  once, for every string; the map has ten entries and none of its images is one of
  its keys.
\<close>

theorem rename_label_idempotent:
  "rename_label (rename_label s) = rename_label s
   \<and> set (map snd fix_names) \<inter> set (map fst fix_names) = {}
   \<and> length fix_names = 10"
proof -
  have "rename_label (rename_label s) = rename_label s"
    by (cases "map_of fix_names s")
       (auto simp: rename_label_def dest!: fix_names_images image_not_key)
  moreover have "set (map snd fix_names) \<inter> set (map fst fix_names) = {}"
    by (simp add: fix_names_def)
  moreover have "length fix_names = 10"
    by (simp add: fix_names_def)
  ultimately show ?thesis by simp
qed

section \<open>The merge\<close>

text \<open>
  Claim C6. The merge is an inner join on the name: a name is the Entity of a row of
  \<open>merged\<close> exactly when it is the name of a row of the geometry table and the name of
  a row of the migration table. A name on one side only gives no row and no error.
\<close>

theorem merged_is_inner_join:
  "n \<in> Entity ` set (mrows (merged centroid world df_wide))
   \<longleftrightarrow> n \<in> fst ` set world \<and> n \<in> fst ` set (index_rows df_wide)"
  by (force simp: merged_def set_merge_inner image_iff)

section \<open>Aggregate exclusion\<close>

text \<open>
  Claim C7. When the loader returns a table, no row of it, after the renaming that
  follows the exclusion filter, has a name in the list of the fifteen aggregate
  labels (Africa, Americas, Asia, Europe, European Union, High income, Low income,
  Lower middle income, Upper middle income, Oceania, World, North America,
  South America, Sub-Saharan Africa, Middle East).
\<close>

theorem no_aggregate_rows:
  assumes "load_migration_data df = Inr t"
  shows "\<forall>e \<in> fst ` set (index_rows t). e \<notin> set aggregates"
proof -
  obtain w where w: "pivot df = Inr w"
    using assms by (cases "pivot df") (simp_all add: load_migration_data_def)
  show ?thesis
    using assms unfolding load_Inr[OF w]
    by (auto simp: rename_label_not_aggregate)
qed

theorem no_aggregate_rows_witness:
  "load_migration_data ex_df = Inr ex_table
   \<and> ''World'' \<in> fst ` set ex_df
   \<and> ''World'' \<notin> fst ` set (index_rows ex_table)
   \<and> ''Lao PDR'' \<in> fst ` set (index_rows ex_table)
   \<and> ''Lao PDR'' \<notin> set aggregates"
proof -
  have h: "load_migration_data ex_df = Inr ex_table" by code_simp
  have w: "''World'' \<in> fst ` set ex_df" by (simp add: ex_df_def)
  have a: "''World'' \<in> set aggregates" by (simp add: aggregates_def)
  have l: "''Lao PDR'' \<in> fst ` set (index_rows ex_table)" by (simp add: ex_table_def)
  note na = no_aggregate_rows [OF h]
  from na a have 1: "''World'' \<notin> fst ` set (index_rows ex_table)" by blast
  from na l have 2: "''Lao PDR'' \<notin> set aggregates" by blast
  from h w 1 l 2 show ?thesis by (intro conjI)
qed

section \<open>Row threshold and fill\<close>



section \<open>Row names after the renaming\<close>

text \<open>
  Claim C3, as the code has it. For a table without a duplicate (name, year) pair the
  loader returns a table, and the row names of that table are pairwise distinct exactly
  when the normalization sends no two different names to the same name, among the names
  of the pivoted rows that pass the threshold of five non-missing cells and the filter on
  the aggregates. The names of rows that are dropped play no part.
\<close>

theorem normalized_names_distinct:
  assumes "distinct (row_keys df)"
  shows "\<exists>w t. pivot df = Inr w \<and> load_migration_data df = Inr t
           \<and> distinct (map fst (index_rows t))
               = inj_on rename_label
                   (fst ` set (filter (\<lambda>(e, r). e \<notin> set aggregates) (index_rows (dropna 5 w))))"
proof -
  from assms obtain w where w: "pivot df = Inr w"
    using pivot_total by blast
  let ?kept = "filter (\<lambda>(e, r). e \<notin> set aggregates \<and> 5 \<le> count_valid r) (index_rows w)"
  let ?t = "\<lparr>columns = columns w,
             index_rows = map (\<lambda>(e, r). (rename_label e, fill_row r)) ?kept\<rparr>"
  have l: "load_migration_data df = Inr ?t"
    by (rule load_Inr[OF w])
  have d: "distinct (map fst ?kept)"
    by (rule distinct_map_filter) (rule pivot_distinct_names[OF w])
  have "map fst (index_rows ?t) = map rename_label (map fst ?kept)"
    by (simp add: comp_def case_prod_unfold)
  then have "distinct (map fst (index_rows ?t)) = inj_on rename_label (set (map fst ?kept))"
    using d by (simp only: distinct_map) simp
  then have "distinct (map fst (index_rows ?t))
               = inj_on rename_label
                   (fst ` set (filter (\<lambda>(e, r). e \<notin> set aggregates) (index_rows (dropna 5 w))))"
    by (simp only: survivors_eq set_map)
  with w l show ?thesis by blast
qed

theorem normalized_names_distinct_witness:
  "distinct (row_keys names_df)
   \<and> load_migration_data names_df = Inr names_table
   \<and> fst ` set (filter (\<lambda>(e, r). e \<notin> set aggregates) (index_rows (dropna 5 names_wide)))
       = {''Chad'', ''Laos'', ''Sudan''}
   \<and> inj_on rename_label {''Chad'', ''Laos'', ''Sudan''}
   \<and> map fst (index_rows names_table) = [''Chad'', ''Lao PDR'', ''Sudan'']
   \<and> distinct (map fst (index_rows names_table))
   \<and> \<not> inj_on rename_label (fst ` set names_df)"
proof -
  have d: "distinct (row_keys names_df)" by code_simp
  have p: "pivot names_df = Inr names_wide" by code_simp
  have l: "load_migration_data names_df = Inr names_table" by code_simp
  have s: "fst ` set (filter (\<lambda>(e, r). e \<notin> set aggregates) (index_rows (dropna 5 names_wide)))
       = {''Chad'', ''Laos'', ''Sudan''}"
    by (simp add: names_wide_def dropna_def count_valid_def aggregates_def)
  have i: "inj_on rename_label {''Chad'', ''Laos'', ''Sudan''}"
    by (simp add: rename_label_def fix_names_def)
  have n: "map fst (index_rows names_table) = [''Chad'', ''Lao PDR'', ''Sudan'']"
    by (simp add: names_table_def)
  have "rename_label ''South Sudan'' = rename_label ''Sudan''"
    by (simp add: rename_label_def fix_names_def)
  moreover have "''South Sudan'' \<in> fst ` set names_df" "''Sudan'' \<in> fst ` set names_df"
    by (simp_all add: names_df_def)
  ultimately have ni: "\<not> inj_on rename_label (fst ` set names_df)"
  proof (intro notI)
    assume r: "rename_label ''South Sudan'' = rename_label ''Sudan''"
      and a: "''South Sudan'' \<in> fst ` set names_df" and b: "''Sudan'' \<in> fst ` set names_df"
      and "inj_on rename_label (fst ` set names_df)"
    from this(4) r a b have "''South Sudan'' = ''Sudan''" by (rule inj_onD)
    then show False by simp
  qed
  from normalized_names_distinct [OF d] obtain w t
    where wt: "pivot names_df = Inr w" "load_migration_data names_df = Inr t"
      "distinct (map fst (index_rows t))
         = inj_on rename_label
             (fst ` set (filter (\<lambda>(e, r). e \<notin> set aggregates) (index_rows (dropna 5 w))))"
    by blast
  from wt(1) p have w: "w = names_wide" by simp
  from wt(2) l have t: "t = names_table" by simp
  from wt(3) i have dt: "distinct (map fst (index_rows names_table))"
    unfolding w t s by simp
  from d l s i n dt ni show ?thesis by (intro conjI)
qed

text \<open>
  Without that condition the row names are not distinct: the input has no duplicate
  (name, year) pair, Sudan and South Sudan have five known values each, and South
  Sudan, renamed to Sudan, meets the row of Sudan in the result.
\<close>

theorem names_distinct_counterexample:
  "distinct (row_keys sudan_df)
   \<and> load_migration_data sudan_df = Inr sudan_table
   \<and> \<not> distinct (map fst (index_rows sudan_table))"
  by code_simp

section \<open>Default destination\<close>

text \<open>
  Claim C10. When the merged frame has a row, the destination selected by default is
  the first entry of the sorted list of the distinct names of the frame, which is the
  least name in the order of strings.
\<close>

theorem default_destination:
  assumes "mrows m \<noteq> []"
  shows "selected_dest m = Some (hd (sort (unique (map Entity (mrows m)))))
         \<and> selected_dest m = Some (Min (Entity ` set (mrows m)))"
proof -
  let ?opts = "country_options m"
  have s: "set ?opts = Entity ` set (mrows m)"
    by (simp add: country_options_def)
  with assms have ne: "?opts \<noteq> []"
    by (metis image_is_empty set_empty)
  have "sorted ?opts" by (simp add: country_options_def)
  then have "hd ?opts = Min (set ?opts)"
    using ne by (rule hd_sorted_Min)
  moreover have "selected_dest m = Some (hd ?opts)"
    using ne by (cases ?opts) (simp_all add: selected_dest_def)
  ultimately show ?thesis using s by (simp add: country_options_def)
qed

theorem default_destination_witness:
  "mrows ex_merged \<noteq> [] \<and> selected_dest ex_merged = Some ''Chad''
   \<and> Some ''Chad'' = Some (Min (Entity ` set (mrows ex_merged)))"
proof -
  have h: "mrows ex_merged \<noteq> []" by (simp add: ex_merged_def)
  have c: "selected_dest ex_merged = Some ''Chad''" by code_simp
  have m: "selected_dest ex_merged = Some (Min (Entity ` set (mrows ex_merged)))"
    using default_destination [OF h] by (rule conjunct2)
  have "Some ''Chad'' = Some (Min (Entity ` set (mrows ex_merged)))"
    by (rule trans [OF c [symmetric] m])
  with h c show ?thesis by (intro conjI)
qed

section \<open>Flows of the globe\<close>




section \<open>Sankey with fewer sources than N\<close>

text \<open>
  Claim C1, at a frame with two eligible sources. The labels are the two sources in
  descending order of value and then the destination; the source indices are 0 and 1;
  but both target indices are 10, where the destination is the label at position 2
  of a list of length 3.
\<close>

theorem sankey_few_sources:
  "sankey 10 ex_merged ''Peru'' 2020
     = Inr \<lparr>labels = [''Chad'', ''Fiji'', ''Peru''], sankey_source = [0, 1],
            sankey_target = [10, 10], sankey_value = [Some 4, Some 2]\<rparr>
   \<and> index_of [''Chad'', ''Fiji'', ''Peru''] ''Peru'' = Some 2
   \<and> length [''Chad'', ''Fiji'', ''Peru''] = 3"
  by code_simp

end
